theory Spec2Isabelle
  imports Main "HOL-Library.Word" "HOL-Library.Sublist"
begin

section \<open>Data model\<close>

text \<open>
  Go's \<open>int64\<close> is a 64-bit word: \<open>+\<close>, \<open>-\<close> and unary minus wrap around, as they do in
  Go; \<open>sint\<close> reads the two's complement value and \<open><s\<close> is the signed comparison.
\<close>

type_synonym int64 = "64 word"

text \<open>
  A Go \<open>error\<close> is an interface value whose \<open>Error()\<close> method yields its message; a nil
  error is \<open>None\<close> of \<open>error option\<close>. The message is all that \<open>%v\<close> prints.
\<close>

datatype error = Err string

fun Error :: "error \<Rightarrow> string" where
  "Error (Err s) = s"

text \<open>\<open>sql.ErrNoRows\<close> and \<open>sql.ErrTxDone\<close> of the standard library.\<close>

definition ErrNoRows :: error where
  "ErrNoRows = Err ''sql: no rows in result set''"

definition ErrTxDone :: error where
  "ErrTxDone = Err ''sql: transaction has already been committed or rolled back''"

text \<open>
  The row structs \<open>Account\<close>, \<open>Entry\<close> and \<open>Transfer\<close> and the parameter structs of the
  four query primitives are generated code that is not part of \<open>store.go\<close>. Their fields
  are those of the data model (section 3) and of the struct literals in \<open>TransferTx\<close>;
  creation times are left out (no clock is modelled). Field names that several Go structs
  share carry the struct's initials here.
\<close>

text \<open>
  Modelled from the spec: the struct \<open>Account\<close> of the generated models (section 3: id,
  owner, balance in signed integer currency units, currency code).
\<close>

record Account =
  ID :: int64
  Owner :: string
  Balance :: int64
  Currency :: string

text \<open>
  Modelled from the spec: the struct \<open>Entry\<close> of the generated models (section 3: account
  id and signed amount, negative for a debit).
\<close>

record Entry =
  eAccountID :: int64
  eAmount :: int64

text \<open>
  Modelled from the spec: the struct \<open>Transfer\<close> of the generated models (section 3:
  from-account id, to-account id, amount).
\<close>

record Transfer =
  tFromAccountID :: int64
  tToAccountID :: int64
  tAmount :: int64

text \<open>
  Modelled from the spec: the generated struct \<open>CreateTransferParams\<close>, with the fields of
  the literal in \<open>TransferTx\<close>.
\<close>

record CreateTransferParams =
  ctFromAccountID :: int64
  ctToAccountID :: int64
  ctAmount :: int64

text \<open>
  Modelled from the spec: the generated struct \<open>CreateEntryParams\<close>, with the fields of the
  literals in \<open>TransferTx\<close>.
\<close>

record CreateEntryParams =
  ceAccountID :: int64
  ceAmount :: int64

text \<open>
  Modelled from the spec: the generated struct \<open>UpdateAccountParams\<close>, with the fields of
  the literals in \<open>TransferTx\<close>.
\<close>

record UpdateAccountParams =
  uaID :: int64
  uaBalance :: int64

text \<open>\<open>TransferTxParams\<close> and \<open>TransferTxResult\<close>, as declared in \<open>store.go\<close>.\<close>

record TransferTxParams =
  FromAccountID :: int64
  ToAccountID :: int64
  Amount :: int64

record TransferTxResult =
  Transfer :: Transfer
  FromAccount :: Account
  ToAccount :: Account
  FromEntry :: Entry
  ToEntry :: Entry

text \<open>Go's zero values of the structs: what \<open>var result TransferTxResult\<close> holds.\<close>

definition zeroAccount :: Account where
  "zeroAccount = \<lparr>ID = 0, Owner = [], Balance = 0, Currency = []\<rparr>"

definition zeroEntry :: Entry where
  "zeroEntry = \<lparr>eAccountID = 0, eAmount = 0\<rparr>"

definition zeroTransfer :: Transfer where
  "zeroTransfer = \<lparr>tFromAccountID = 0, tToAccountID = 0, tAmount = 0\<rparr>"

definition zeroResult :: TransferTxResult where
  "zeroResult = \<lparr>Transfer = zeroTransfer, FromAccount = zeroAccount, ToAccount = zeroAccount,
     FromEntry = zeroEntry, ToEntry = zeroEntry\<rparr>"

section \<open>The store\<close>

text \<open>
  \<open>database/sql\<close> and the generated \<open>Queries\<close> (\<open>New\<close>, \<open>CreateTransfer\<close>,
  \<open>CreateEntry\<close>, \<open>GetAccount\<close>, \<open>UpdateAccount\<close>) are not part of \<open>store.go\<close>; sections
  4.1 and 6 of the specification give their contract. The store is modelled for one caller
  at a time; interleaving with other transactions, locks and deadlines are not modelled.
\<close>

text \<open>Modelled from the spec: the three tables of the store (accounts, entries, transfers).\<close>

record Tables =
  accounts :: "Account list"
  entries :: "Entry list"
  transfers :: "Transfer list"

text \<open>
  Modelled from the spec: the interface \<open>DBTX\<close> of the generated code, that is, what a
  \<open>Queries\<close> handle is bound to: the database itself or the open transaction.
\<close>

datatype DBTX = DB | Tx

text \<open>Modelled from the spec: the generated \<open>Queries\<close> and its constructor \<open>New\<close>, as in \<open>New(tx)\<close>.\<close>

datatype Queries = New DBTX

text \<open>The statements of the four primitives, and the calls that reach the store.\<close>

datatype Stmt =
    StCreateTransfer CreateTransferParams
  | StCreateEntry CreateEntryParams
  | StGetAccount int64
  | StUpdateAccount UpdateAccountParams

datatype Call = CallBeginTx | CallCommit | CallRollback | CallQuery DBTX Stmt

text \<open>
  Modelled from the spec: the store behind \<open>store.db\<close>, together with the process's
  standard output.
  \<^item> \<open>committed\<close> holds the tables every observer outside a transaction sees;
  \<^item> \<open>working\<close> is the private view of the open transaction (\<open>None\<close> when none is open):
    writes through a transaction-scoped handle are invisible outside it until commit;
  \<^item> \<open>calls\<close> logs every call made to the store, in order, with the error it returned;
  \<^item> \<open>faults\<close> injects infrastructure failures: \<open>faults w n = Some e\<close> makes the call
    number \<open>n\<close> (counting from 0) fail with \<open>e\<close> without taking effect;
  \<^item> \<open>stdout\<close> holds the lines printed by \<open>fmt.Println\<close>.
\<close>

record World =
  committed :: Tables
  working :: "Tables option"
  calls :: "(Call \<times> error option) list"
  faults :: "nat \<Rightarrow> error option"
  stdout :: "string list"

text \<open>The fault injected into the next call, and the logging of a call with its outcome.\<close>

definition fault :: "World \<Rightarrow> error option" where
  "fault w = faults w (length (calls w))"

definition logCall :: "Call \<Rightarrow> error option \<Rightarrow> World \<Rightarrow> World" where
  "logCall c e w = w\<lparr>calls := calls w @ [(c, e)]\<rparr>"

text \<open>
  The value stored in the context under \<open>txKey\<close> (\<open>None\<close> for nil), which is all that
  \<open>store.go\<close> reads from a context.
\<close>

datatype Context = Context (Value: "string option")

text \<open>\<open>fmt.Println(txName, msg)\<close>: the operands separated by a space, on one line.\<close>

definition Println :: "string option \<Rightarrow> string \<Rightarrow> World \<Rightarrow> World" where
  "Println a b w =
     w\<lparr>stdout := stdout w @ [(case a of None \<Rightarrow> ''<nil>'' | Some s \<Rightarrow> s) @ '' '' @ b]\<rparr>"

text \<open>
  Modelled from the spec: \<open>db.BeginTx(ctx, nil)\<close> of \<open>database/sql\<close>. The new transaction
  starts from the committed tables; a failed begin opens nothing.
\<close>

definition BeginTx :: "Context \<Rightarrow> World \<Rightarrow> error option \<times> World" where
  "BeginTx ctx w =
     (case fault w of
        Some e \<Rightarrow> (Some e, logCall CallBeginTx (Some e) w)
      | None \<Rightarrow> (None, logCall CallBeginTx None (w\<lparr>working := Some (committed w)\<rparr>)))"

text \<open>
  Modelled from the spec: \<open>tx.Rollback()\<close> of \<open>database/sql\<close>. It closes the transaction
  whether or not it returns an error, discarding the working tables, and fails with
  \<open>sql.ErrTxDone\<close> when the transaction is closed already.
\<close>

definition Rollback :: "World \<Rightarrow> error option \<times> World" where
  "Rollback w =
     (case working w of
        None \<Rightarrow> (Some ErrTxDone, logCall CallRollback (Some ErrTxDone) w)
      | Some t \<Rightarrow>
          (case fault w of
             Some e \<Rightarrow> (Some e, logCall CallRollback (Some e) (w\<lparr>working := None\<rparr>))
           | None \<Rightarrow> (None, logCall CallRollback None (w\<lparr>working := None\<rparr>))))"

text \<open>
  Modelled from the spec: \<open>tx.Commit()\<close> of \<open>database/sql\<close>. It closes the transaction
  whether or not it returns an error; only a commit that returns nil publishes the working
  tables.
\<close>

definition Commit :: "World \<Rightarrow> error option \<times> World" where
  "Commit w =
     (case working w of
        None \<Rightarrow> (Some ErrTxDone, logCall CallCommit (Some ErrTxDone) w)
      | Some t \<Rightarrow>
          (case fault w of
             Some e \<Rightarrow> (Some e, logCall CallCommit (Some e) (w\<lparr>working := None\<rparr>))
           | None \<Rightarrow> (None, logCall CallCommit None (w\<lparr>committed := t, working := None\<rparr>))))"

text \<open>Modelled from the spec: the tables a handle reads (none when its transaction is closed).\<close>

definition view :: "DBTX \<Rightarrow> World \<Rightarrow> Tables option" where
  "view h w = (case h of DB \<Rightarrow> Some (committed w) | Tx \<Rightarrow> working w)"

text \<open>Modelled from the spec: the tables a handle writes.\<close>

definition store :: "DBTX \<Rightarrow> Tables \<Rightarrow> World \<Rightarrow> World" where
  "store h t w = (case h of DB \<Rightarrow> w\<lparr>committed := t\<rparr> | Tx \<Rightarrow> w\<lparr>working := Some t\<rparr>)"

text \<open>
  Modelled from the spec: one statement of the generated code through a handle. It fails,
  returning the zero value and leaving the tables as they were, when the handle's
  transaction is closed, when a fault is injected, or when the statement itself fails; the
  call is logged with its outcome.
\<close>

definition runQuery ::
  "DBTX \<Rightarrow> Stmt \<Rightarrow> 'a \<Rightarrow> (Tables \<Rightarrow> error + 'a \<times> Tables) \<Rightarrow> World \<Rightarrow> ('a \<times> error option) \<times> World" where
  "runQuery h st zero f w =
     (case view h w of
        None \<Rightarrow> ((zero, Some ErrTxDone), logCall (CallQuery h st) (Some ErrTxDone) w)
      | Some t \<Rightarrow>
          (case fault w of
             Some e \<Rightarrow> ((zero, Some e), logCall (CallQuery h st) (Some e) w)
           | None \<Rightarrow>
               (case f t of
                  Inl e \<Rightarrow> ((zero, Some e), logCall (CallQuery h st) (Some e) w)
                | Inr (v, t') \<Rightarrow> ((v, None), logCall (CallQuery h st) None (store h t' w)))))"

text \<open>Modelled from the spec: the row selected by \<open>WHERE id = $1\<close>, the first with that id.\<close>

definition findAccount :: "int64 \<Rightarrow> Account list \<Rightarrow> Account option" where
  "findAccount i as = find (\<lambda>a. ID a = i) as"

text \<open>Modelled from the spec: the effect of \<open>UPDATE accounts SET balance = $2 WHERE id = $1\<close> on a row.\<close>

definition setBalance :: "int64 \<Rightarrow> int64 \<Rightarrow> Account \<Rightarrow> Account" where
  "setBalance i b a = (if ID a = i then a\<lparr>Balance := b\<rparr> else a)"

text \<open>
  Modelled from the spec: \<open>Queries.CreateTransfer\<close> (section 6:
  \<open>createTransfer(from, to, amount) \<rightarrow> Transfer\<close>) appends the record and returns it.
\<close>

fun CreateTransfer ::
  "Queries \<Rightarrow> CreateTransferParams \<Rightarrow> World \<Rightarrow> (Transfer \<times> error option) \<times> World" where
  "CreateTransfer (New h) arg w =
     runQuery h (StCreateTransfer arg) zeroTransfer
       (\<lambda>t. let i = \<lparr>tFromAccountID = ctFromAccountID arg, tToAccountID = ctToAccountID arg,
                      tAmount = ctAmount arg\<rparr>
            in Inr (i, t\<lparr>transfers := transfers t @ [i]\<rparr>)) w"

text \<open>
  Modelled from the spec: \<open>Queries.CreateEntry\<close> (section 6:
  \<open>createEntry(accountID, signedAmount) \<rightarrow> Entry\<close>) appends the entry and returns it.
\<close>

fun CreateEntry ::
  "Queries \<Rightarrow> CreateEntryParams \<Rightarrow> World \<Rightarrow> (Entry \<times> error option) \<times> World" where
  "CreateEntry (New h) arg w =
     runQuery h (StCreateEntry arg) zeroEntry
       (\<lambda>t. let i = \<lparr>eAccountID = ceAccountID arg, eAmount = ceAmount arg\<rparr>
            in Inr (i, t\<lparr>entries := entries t @ [i]\<rparr>)) w"

text \<open>
  Modelled from the spec: \<open>Queries.GetAccount\<close> (section 6: \<open>getAccount(id) \<rightarrow> Account\<close>,
  fails with NotFound if absent) returns the row with the given id; the failure is
  \<open>sql.ErrNoRows\<close>.
\<close>

fun GetAccount :: "Queries \<Rightarrow> int64 \<Rightarrow> World \<Rightarrow> (Account \<times> error option) \<times> World" where
  "GetAccount (New h) i w =
     runQuery h (StGetAccount i) zeroAccount
       (\<lambda>t. case findAccount i (accounts t) of
               None \<Rightarrow> Inl ErrNoRows
             | Some a \<Rightarrow> Inr (a, t)) w"

text \<open>
  Modelled from the spec: \<open>Queries.UpdateAccount\<close> (section 6:
  \<open>updateAccount(id, newBalance) \<rightarrow> Account\<close>) sets the balance of the rows with the given
  id and returns the updated row; without such a row it fails with \<open>sql.ErrNoRows\<close>.
\<close>

fun UpdateAccount ::
  "Queries \<Rightarrow> UpdateAccountParams \<Rightarrow> World \<Rightarrow> (Account \<times> error option) \<times> World" where
  "UpdateAccount (New h) arg w =
     runQuery h (StUpdateAccount arg) zeroAccount
       (\<lambda>t. case findAccount (uaID arg) (accounts t) of
               None \<Rightarrow> Inl ErrNoRows
             | Some a \<Rightarrow>
                 Inr (a\<lparr>Balance := uaBalance arg\<rparr>,
                      t\<lparr>accounts := map (setBalance (uaID arg) (uaBalance arg)) (accounts t)\<rparr>)) w"

section \<open>store.go\<close>

text \<open>
  The functions of \<open>store.go\<close>. The world stands for \<open>store.db\<close>; \<open>NewStore\<close> only builds
  the struct and is not modelled.
\<close>

text \<open>\<open>fmt.Errorf("tx err: %v, rb err: %v", err, rbErr)\<close>.\<close>

definition Errorf_tx_rb :: "error \<Rightarrow> error \<Rightarrow> error" where
  "Errorf_tx_rb err rbErr = Err (''tx err: '' @ Error err @ '', rb err: '' @ Error rbErr)"

text \<open>
  \<open>execTx\<close>. The callback \<open>fn\<close> is a closure: besides the store it may change the
  variables it captures, which are threaded through as a value of type \<open>'c\<close>.
\<close>

definition execTx ::
  "Context \<Rightarrow> (Queries \<Rightarrow> 'c \<times> World \<Rightarrow> error option \<times> 'c \<times> World) \<Rightarrow> 'c \<times> World
     \<Rightarrow> error option \<times> 'c \<times> World" where
  "execTx ctx fn = (\<lambda>(c, w).
     (case BeginTx ctx w of
        (Some err, w1) \<Rightarrow> (Some err, c, w1)
      | (None, w1) \<Rightarrow>
          (let q = New Tx in
           case fn q (c, w1) of
             (Some err, c2, w2) \<Rightarrow>
               (case Rollback w2 of
                  (Some rbErr, w3) \<Rightarrow> (Some (Errorf_tx_rb err rbErr), c2, w3)
                | (None, w3) \<Rightarrow> (Some err, c2, w3))
           | (None, c2, w2) \<Rightarrow>
               (case Commit w2 of (cerr, w3) \<Rightarrow> (cerr, c2, w3)))))"

text \<open>
  The callback that \<open>TransferTx\<close> passes to \<open>execTx\<close>; the captured variable is \<open>result\<close>.
  Each assignment \<open>result.X, err = q.F(...)\<close> stores the returned value before the error
  is tested.
\<close>

definition TransferTx_fn ::
  "Context \<Rightarrow> TransferTxParams \<Rightarrow> Queries \<Rightarrow> TransferTxResult \<times> World
     \<Rightarrow> error option \<times> TransferTxResult \<times> World" where
  "TransferTx_fn ctx arg q = (\<lambda>(result, w).
     let txName = Value ctx;
         w = Println txName ''create transfer'' w;
         ((v, err), w) = CreateTransfer q
            \<lparr>ctFromAccountID = FromAccountID arg, ctToAccountID = ToAccountID arg,
             ctAmount = Amount arg\<rparr> w;
         result = result\<lparr>Transfer := v\<rparr>
     in if err \<noteq> None then (err, result, w) else
     let w = Println txName ''create entry 1'' w;
         ((v, err), w) = CreateEntry q
            \<lparr>ceAccountID = FromAccountID arg, ceAmount = - Amount arg\<rparr> w;
         result = result\<lparr>FromEntry := v\<rparr>
     in if err \<noteq> None then (err, result, w) else
     let w = Println txName ''create entry 2'' w;
         ((v, err), w) = CreateEntry q
            \<lparr>ceAccountID = ToAccountID arg, ceAmount = Amount arg\<rparr> w;
         result = result\<lparr>ToEntry := v\<rparr>
     in if err \<noteq> None then (err, result, w) else
     let w = Println txName ''get account 1'' w;
         ((account1, err), w) = GetAccount q (FromAccountID arg) w
     in if err \<noteq> None then (err, result, w) else
     let w = Println txName ''update account 1'' w;
         ((v, err), w) = UpdateAccount q
            \<lparr>uaID = FromAccountID arg, uaBalance = Balance account1 - Amount arg\<rparr> w;
         result = result\<lparr>FromAccount := v\<rparr>
     in if err \<noteq> None then (err, result, w) else
     let w = Println txName ''get account 2'' w;
         ((account2, err), w) = GetAccount q (ToAccountID arg) w
     in if err \<noteq> None then (err, result, w) else
     let w = Println txName ''update account 2'' w;
         ((v, err), w) = UpdateAccount q
            \<lparr>uaID = ToAccountID arg, uaBalance = Balance account2 + Amount arg\<rparr> w;
         result = result\<lparr>ToAccount := v\<rparr>
     in if err \<noteq> None then (err, result, w) else
     (None, result, w))"

definition TransferTx ::
  "Context \<Rightarrow> TransferTxParams \<Rightarrow> World \<Rightarrow> (TransferTxResult \<times> error option) \<times> World" where
  "TransferTx ctx arg w =
     (case execTx ctx (TransferTx_fn ctx arg) (zeroResult, w) of
        (err, result, w') \<Rightarrow> ((result, err), w'))"


section \<open>Observing a run\<close>

text \<open>The calls made to the store between two worlds of one run.\<close>

definition attempt :: "World \<Rightarrow> World \<Rightarrow> (Call \<times> error option) list" where
  "attempt w w' = drop (length (calls w)) (calls w')"

fun isQuery :: "Call \<Rightarrow> bool" where
  "isQuery (CallQuery h st) = True"
| "isQuery c = False"

text \<open>The five writes of a transfer are its inserts and balance updates; reads are not writes.\<close>

fun isWrite :: "Call \<Rightarrow> bool" where
  "isWrite (CallQuery h (StCreateTransfer p)) = True"
| "isWrite (CallQuery h (StCreateEntry p)) = True"
| "isWrite (CallQuery h (StUpdateAccount p)) = True"
| "isWrite c = False"

definition failedWrite :: "(Call \<times> error option) list \<Rightarrow> bool" where
  "failedWrite log = list_ex (\<lambda>(c, e). isWrite c \<and> e \<noteq> None) log"

definition queriesOf :: "(Call \<times> error option) list \<Rightarrow> Call list" where
  "queriesOf log = filter isQuery (map fst log)"

fun updatedID :: "Call \<Rightarrow> int64 list" where
  "updatedID (CallQuery h (StUpdateAccount p)) = [uaID p]"
| "updatedID c = []"

text \<open>The ids of the accounts whose balance a log updates, in the order of the updates.\<close>

definition updateOrder :: "(Call \<times> error option) list \<Rightarrow> int64 list" where
  "updateOrder log = concat (map (updatedID \<circ> fst) log)"

text \<open>
  The statements of the unit of work in source order, for the balances \<open>nb1\<close> and \<open>nb2\<close>
  written to the source and to the destination account.
\<close>

definition unitOfWork :: "TransferTxParams \<Rightarrow> int64 \<Rightarrow> int64 \<Rightarrow> Call list" where
  "unitOfWork arg nb1 nb2 =
     [CallQuery Tx (StCreateTransfer \<lparr>ctFromAccountID = FromAccountID arg,
        ctToAccountID = ToAccountID arg, ctAmount = Amount arg\<rparr>),
      CallQuery Tx (StCreateEntry \<lparr>ceAccountID = FromAccountID arg, ceAmount = - Amount arg\<rparr>),
      CallQuery Tx (StCreateEntry \<lparr>ceAccountID = ToAccountID arg, ceAmount = Amount arg\<rparr>),
      CallQuery Tx (StGetAccount (FromAccountID arg)),
      CallQuery Tx (StUpdateAccount \<lparr>uaID = FromAccountID arg, uaBalance = nb1\<rparr>),
      CallQuery Tx (StGetAccount (ToAccountID arg)),
      CallQuery Tx (StUpdateAccount \<lparr>uaID = ToAccountID arg, uaBalance = nb2\<rparr>)]"


text \<open>
  The ordering rule in the words of the specification (section 4.2): the source account
  first if \<open>fromAccountID < toAccountID\<close>, otherwise the destination account first.
\<close>

definition DeadlockAvoidanceOrdering :: "TransferTxParams \<Rightarrow> int64 list" where
  "DeadlockAvoidanceOrdering arg =
     (if FromAccountID arg <s ToAccountID arg
      then [FromAccountID arg, ToAccountID arg]
      else [ToAccountID arg, FromAccountID arg])"

text \<open>The tables of a committed transfer, from the rows \<open>a1\<close> and \<open>a2\<close> that its two reads found.\<close>

definition transferred :: "TransferTxParams \<Rightarrow> Account \<Rightarrow> Account \<Rightarrow> Tables \<Rightarrow> Tables" where
  "transferred arg a1 a2 t =
     \<lparr>accounts = map (setBalance (ToAccountID arg) (Balance a2 + Amount arg))
                   (map (setBalance (FromAccountID arg) (Balance a1 - Amount arg)) (accounts t)),
      entries = entries t @ [\<lparr>eAccountID = FromAccountID arg, eAmount = - Amount arg\<rparr>,
                             \<lparr>eAccountID = ToAccountID arg, eAmount = Amount arg\<rparr>],
      transfers = transfers t @ [\<lparr>tFromAccountID = FromAccountID arg,
                     tToAccountID = ToAccountID arg, tAmount = Amount arg\<rparr>]\<rparr>"

definition transferResult :: "TransferTxParams \<Rightarrow> Account \<Rightarrow> Account \<Rightarrow> TransferTxResult" where
  "transferResult arg a1 a2 =
     \<lparr>Transfer = \<lparr>tFromAccountID = FromAccountID arg, tToAccountID = ToAccountID arg,
                   tAmount = Amount arg\<rparr>,
      FromAccount = a1\<lparr>Balance := Balance a1 - Amount arg\<rparr>,
      ToAccount = a2\<lparr>Balance := Balance a2 + Amount arg\<rparr>,
      FromEntry = \<lparr>eAccountID = FromAccountID arg, eAmount = - Amount arg\<rparr>,
      ToEntry = \<lparr>eAccountID = ToAccountID arg, eAmount = Amount arg\<rparr>\<rparr>"

text \<open>The world in which a transaction has just begun.\<close>

definition begun :: "World \<Rightarrow> World" where
  "begun w = logCall CallBeginTx None (w\<lparr>working := Some (committed w)\<rparr>)"

section \<open>Example worlds\<close>

text \<open>Accounts 1 and 2 with balances 100 and 50, nothing else, and no injected fault.\<close>

definition exampleWorld :: World where
  "exampleWorld =
     \<lparr>committed = \<lparr>accounts = [\<lparr>ID = 1, Owner = ''A'', Balance = 100, Currency = ''USD''\<rparr>,
                               \<lparr>ID = 2, Owner = ''B'', Balance = 50, Currency = ''USD''\<rparr>],
                   entries = [], transfers = []\<rparr>,
      working = None, calls = [], faults = (\<lambda>n. None), stdout = []\<rparr>"

text \<open>
  The same world with a fault injected into call 3, which in a transfer is the third write
  (the destination entry insert).
\<close>

definition failingWorld :: World where
  "failingWorld =
     exampleWorld\<lparr>faults := (\<lambda>n. if n = 3 then Some (Err ''write failed'') else None)\<rparr>"

text \<open>Requests on the example worlds: the scenario of section 8, its reverse, a negative amount, a self-transfer.\<close>

definition exampleTransfer :: TransferTxParams where
  "exampleTransfer = \<lparr>FromAccountID = 1, ToAccountID = 2, Amount = 30\<rparr>"

definition reverseTransfer :: TransferTxParams where
  "reverseTransfer = \<lparr>FromAccountID = 2, ToAccountID = 1, Amount = 30\<rparr>"

definition negativeTransfer :: TransferTxParams where
  "negativeTransfer = \<lparr>FromAccountID = 1, ToAccountID = 2, Amount = - 5\<rparr>"

definition selfTransfer :: TransferTxParams where
  "selfTransfer = \<lparr>FromAccountID = 1, ToAccountID = 1, Amount = 30\<rparr>"

text \<open>
  Accounts whose balances are ten units from the ends of the range of \<open>int64\<close>, and a
  transfer of 10 between them.
\<close>

definition overflowWorld :: World where
  "overflowWorld =
     \<lparr>committed = \<lparr>accounts =
          [\<lparr>ID = 1, Owner = ''A'', Balance = - 9223372036854775803, Currency = ''USD''\<rparr>,
           \<lparr>ID = 2, Owner = ''B'', Balance = 9223372036854775804, Currency = ''USD''\<rparr>],
        entries = [], transfers = []\<rparr>,
      working = None, calls = [], faults = (\<lambda>n. None), stdout = []\<rparr>"

definition overflowTransfer :: TransferTxParams where
  "overflowTransfer = \<lparr>FromAccountID = 1, ToAccountID = 2, Amount = 10\<rparr>"

text \<open>Go's \<open>math.MinInt64\<close>, the one \<open>int64\<close> whose negation is itself, and a transfer of that amount.\<close>

definition MinInt64 :: int64 where
  "MinInt64 = - 9223372036854775808"

definition minTransfer :: TransferTxParams where
  "minTransfer = \<lparr>FromAccountID = 1, ToAccountID = 2, Amount = MinInt64\<rparr>"

text \<open>A callback that counts its own invocations in its captured variable and returns \<open>r\<close>.\<close>

definition countingFn ::
  "error option \<Rightarrow> Queries \<Rightarrow> nat \<times> World \<Rightarrow> error option \<times> nat \<times> World" where
  "countingFn r q = (\<lambda>(n, w). (r, Suc n, w))"

section \<open>Lemmas about the store\<close>

lemma attempt_append [simp]: "calls w' = calls w @ p \<Longrightarrow> attempt w w' = p"
  by (simp add: attempt_def)


lemma Println_proj [simp]:
  "committed (Println a b w) = committed w"
  "working (Println a b w) = working w"
  "calls (Println a b w) = calls w"
  "faults (Println a b w) = faults w"
  "fault (Println a b w) = fault w"
  by (simp_all add: Println_def fault_def)

lemma logCall_proj [simp]:
  "committed (logCall c e w) = committed w"
  "working (logCall c e w) = working w"
  "calls (logCall c e w) = calls w @ [(c, e)]"
  "faults (logCall c e w) = faults w"
  "stdout (logCall c e w) = stdout w"
  by (simp_all add: logCall_def)

lemma BeginTx_None:
  "BeginTx ctx w = (None, w1) \<longleftrightarrow>
     fault w = None \<and> w1 = logCall CallBeginTx None (w\<lparr>working := Some (committed w)\<rparr>)"
  by (auto simp: BeginTx_def split: option.splits)

lemma BeginTx_Some:
  "BeginTx ctx w = (Some e, w1) \<longleftrightarrow> fault w = Some e \<and> w1 = logCall CallBeginTx (Some e) w"
  by (auto simp: BeginTx_def split: option.splits)

lemma Commit_None:
  "Commit w = (None, w') \<longleftrightarrow>
     (\<exists>t. working w = Some t \<and> fault w = None \<and>
        w' = logCall CallCommit None (w\<lparr>committed := t, working := None\<rparr>))"
  by (auto simp: Commit_def ErrTxDone_def split: option.splits)

lemma Commit_proj:
  "calls (snd (Commit w)) = calls w @ [(CallCommit, fst (Commit w))]"
  "faults (snd (Commit w)) = faults w"
  "fst (Commit w) \<noteq> None \<Longrightarrow> committed (snd (Commit w)) = committed w"
  by (auto simp: Commit_def split: option.splits)

lemma Rollback_proj:
  "calls (snd (Rollback w)) = calls w @ [(CallRollback, fst (Rollback w))]"
  "faults (snd (Rollback w)) = faults w"
  "committed (snd (Rollback w)) = committed w"
  "working (snd (Rollback w)) = None"
  by (auto simp: Rollback_def split: option.splits)

lemma runQuery_Tx_None:
  "runQuery Tx st z f w = ((v, None), w') \<longleftrightarrow>
     (\<exists>t t'. working w = Some t \<and> fault w = None \<and> f t = Inr (v, t') \<and>
        w' = logCall (CallQuery Tx st) None (w\<lparr>working := Some t'\<rparr>))"
  by (auto simp: runQuery_def view_def store_def split: option.splits sum.splits)

lemma runQuery_Tx_committed [simp]:
  "committed (snd (runQuery Tx st z f w)) = committed w"
  by (auto simp: runQuery_def view_def store_def split: option.splits sum.splits)

lemma runQuery_Tx_faults [simp]:
  "faults (snd (runQuery Tx st z f w)) = faults w"
  by (auto simp: runQuery_def view_def store_def split: option.splits sum.splits)

lemma runQuery_Tx_calls [simp]:
  "calls (snd (runQuery Tx st z f w)) =
     calls w @ [(CallQuery Tx st, snd (fst (runQuery Tx st z f w)))]"
  by (auto simp: runQuery_def view_def store_def split: option.splits sum.splits)

lemma findAccount_map_setBalance:
  "findAccount i (map (setBalance j b) as) = map_option (setBalance j b) (findAccount i as)"
  by (induction as) (auto simp: findAccount_def setBalance_def)

lemma findAccount_ID: "findAccount i as = Some a \<Longrightarrow> ID a = i"
  by (auto simp: findAccount_def find_Some_iff)

section \<open>Lemmas about the unit of work\<close>

lemma TransferTx_fn_committed:
  "committed (snd (snd (TransferTx_fn ctx arg (New Tx) (r, w)))) = committed w"
  unfolding TransferTx_fn_def Let_def
  by (simp add: case_prod_beta)


lemma TransferTx_fn_calls:
  "\<exists>p nb1 nb2. calls (snd (snd (TransferTx_fn ctx arg (New Tx) (r, w)))) = calls w @ p
     \<and> prefix (map fst p) (unitOfWork arg nb1 nb2)"
  unfolding TransferTx_fn_def Let_def unitOfWork_def
  by (simp add: case_prod_beta)

lemma TransferTx_fn_ok:
  assumes "TransferTx_fn ctx arg (New Tx) (r, w) = (None, r', w')"
  shows "\<exists>t a1 a2. working w = Some t
     \<and> findAccount (FromAccountID arg) (accounts t) = Some a1
     \<and> findAccount (ToAccountID arg)
          (map (setBalance (FromAccountID arg) (Balance a1 - Amount arg)) (accounts t)) = Some a2
     \<and> r' = r\<lparr>Transfer := Transfer (transferResult arg a1 a2),
               FromEntry := FromEntry (transferResult arg a1 a2),
               ToEntry := ToEntry (transferResult arg a1 a2),
               FromAccount := FromAccount (transferResult arg a1 a2),
               ToAccount := ToAccount (transferResult arg a1 a2)\<rparr>
     \<and> working w' = Some (transferred arg a1 a2 t)
     \<and> calls w' = calls w @ map (\<lambda>c. (c, None))
          (unitOfWork arg (Balance a1 - Amount arg) (Balance a2 + Amount arg))"
  using assms
  apply (simp add: TransferTx_fn_def Let_def split: prod.splits if_splits)
  apply (auto simp: runQuery_Tx_None logCall_def Println_def unitOfWork_def transferred_def
      transferResult_def split: option.splits)
  done




section \<open>Lemmas about execTx and TransferTx\<close>

text \<open>The three ways through \<open>execTx\<close>: a failed begin, a commit, a rollback.\<close>

lemma execTx_begin_fail:
  "BeginTx ctx w = (Some e, w1) \<Longrightarrow> execTx ctx fn (c, w) = (Some e, c, w1)"
  by (simp add: execTx_def)

lemma execTx_commit:
  "BeginTx ctx w = (None, w1) \<Longrightarrow> fn (New Tx) (c, w1) = (None, c2, w2) \<Longrightarrow>
     execTx ctx fn (c, w) = (fst (Commit w2), c2, snd (Commit w2))"
  by (simp add: execTx_def split: prod.splits)

lemma execTx_rollback:
  "BeginTx ctx w = (None, w1) \<Longrightarrow> fn (New Tx) (c, w1) = (Some e, c2, w2) \<Longrightarrow>
     execTx ctx fn (c, w) =
       (case fst (Rollback w2) of None \<Rightarrow> Some e | Some rbErr \<Rightarrow> Some (Errorf_tx_rb e rbErr),
        c2, snd (Rollback w2))"
  by (simp add: execTx_def split: prod.splits option.splits)

lemma TransferTx_cases:
  obtains (begin_failed) e where "fault w = Some e"
      "TransferTx ctx arg w = ((zeroResult, Some e), logCall CallBeginTx (Some e) w)"
  | (rolled_back) e r2 w2 where "fault w = None"
      "TransferTx_fn ctx arg (New Tx) (zeroResult, begun w) = (Some e, r2, w2)"
      "TransferTx ctx arg w =
         ((r2, case fst (Rollback w2) of None \<Rightarrow> Some e | Some rbErr \<Rightarrow> Some (Errorf_tx_rb e rbErr)),
          snd (Rollback w2))"
  | (committing) r2 w2 where "fault w = None"
      "TransferTx_fn ctx arg (New Tx) (zeroResult, begun w) = (None, r2, w2)"
      "TransferTx ctx arg w = ((r2, fst (Commit w2)), snd (Commit w2))"
proof (cases "fault w")
  case (Some e)
  then have "BeginTx ctx w = (Some e, logCall CallBeginTx (Some e) w)"
    by (simp add: BeginTx_Some)
  then have "TransferTx ctx arg w = ((zeroResult, Some e), logCall CallBeginTx (Some e) w)"
    by (simp add: TransferTx_def execTx_begin_fail)
  with Some show ?thesis by (rule begin_failed)
next
  case None
  then have b: "BeginTx ctx w = (None, begun w)"
    by (simp add: BeginTx_None begun_def)
  obtain e2 r2 w2 where f: "TransferTx_fn ctx arg (New Tx) (zeroResult, begun w) = (e2, r2, w2)"
    by (cases "TransferTx_fn ctx arg (New Tx) (zeroResult, begun w)")
  show ?thesis
  proof (cases e2)
    case None
    with f have f': "TransferTx_fn ctx arg (New Tx) (zeroResult, begun w) = (None, r2, w2)"
      by simp
    have "TransferTx ctx arg w = ((r2, fst (Commit w2)), snd (Commit w2))"
      by (simp add: TransferTx_def execTx_commit [where fn = "TransferTx_fn ctx arg", OF b f'])
    with \<open>fault w = None\<close> f' show ?thesis by (rule committing)
  next
    case (Some e)
    with f have f': "TransferTx_fn ctx arg (New Tx) (zeroResult, begun w) = (Some e, r2, w2)"
      by simp
    have "TransferTx ctx arg w =
         ((r2, case fst (Rollback w2) of None \<Rightarrow> Some e | Some rbErr \<Rightarrow> Some (Errorf_tx_rb e rbErr)),
          snd (Rollback w2))"
      by (simp add: TransferTx_def execTx_rollback [where fn = "TransferTx_fn ctx arg", OF b f'])
    with \<open>fault w = None\<close> f' show ?thesis by (rule rolled_back)
  qed
qed

lemma begun_proj [simp]:
  "committed (begun w) = committed w"
  "working (begun w) = Some (committed w)"
  "calls (begun w) = calls w @ [(CallBeginTx, None)]"
  "faults (begun w) = faults w"
  by (simp_all add: begun_def)

lemma TransferTx_ok:
  assumes "TransferTx ctx arg w = ((r', None), w')"
  shows "\<exists>a1 a2. findAccount (FromAccountID arg) (accounts (committed w)) = Some a1
     \<and> findAccount (ToAccountID arg)
          (map (setBalance (FromAccountID arg) (Balance a1 - Amount arg))
             (accounts (committed w))) = Some a2
     \<and> r' = transferResult arg a1 a2
     \<and> committed w' = transferred arg a1 a2 (committed w)
     \<and> working w' = None
     \<and> calls w' = calls w @ (CallBeginTx, None) # map (\<lambda>c. (c, None))
          (unitOfWork arg (Balance a1 - Amount arg) (Balance a2 + Amount arg)) @ [(CallCommit, None)]"
proof (cases rule: TransferTx_cases [of w ctx arg])
  case (begin_failed e)
  with assms show ?thesis by simp
next
  case (rolled_back e r2 w2)
  with assms show ?thesis by (simp split: option.splits)
next
  case (committing r2 w2)
  with assms have c: "Commit w2 = (None, w')" and r: "r' = r2"
    by (simp_all add: prod_eq_iff)
  from TransferTx_fn_ok [OF committing(2)] obtain a1 a2 where
    a1: "findAccount (FromAccountID arg) (accounts (committed w)) = Some a1" and
    a2: "findAccount (ToAccountID arg)
          (map (setBalance (FromAccountID arg) (Balance a1 - Amount arg))
             (accounts (committed w))) = Some a2" and
    r2: "r2 = zeroResult\<lparr>Transfer := Transfer (transferResult arg a1 a2),
               FromEntry := FromEntry (transferResult arg a1 a2),
               ToEntry := ToEntry (transferResult arg a1 a2),
               FromAccount := FromAccount (transferResult arg a1 a2),
               ToAccount := ToAccount (transferResult arg a1 a2)\<rparr>" and
    w2: "working w2 = Some (transferred arg a1 a2 (committed w))" and
    c2: "calls w2 = calls (begun w) @ map (\<lambda>c. (c, None))
          (unitOfWork arg (Balance a1 - Amount arg) (Balance a2 + Amount arg))"
    by auto
  have "r' = transferResult arg a1 a2"
    using r r2 by (simp add: zeroResult_def)
  moreover from c w2 have "w' = logCall CallCommit None
      (w2\<lparr>committed := transferred arg a1 a2 (committed w), working := None\<rparr>)"
    by (auto simp: Commit_None)
  ultimately show ?thesis using a1 a2 c2 by auto
qed

lemma TransferTx_err_committed:
  assumes "snd (fst (TransferTx ctx arg w)) \<noteq> None"
  shows "committed (snd (TransferTx ctx arg w)) = committed w"
proof (cases rule: TransferTx_cases [of w ctx arg])
  case (begin_failed e)
  then show ?thesis by simp
next
  case (rolled_back e r2 w2)
  have "committed w2 = committed (begun w)"
    using TransferTx_fn_committed [of ctx arg zeroResult "begun w"] rolled_back(2) by simp
  with rolled_back show ?thesis by (simp add: Rollback_proj)
next
  case (committing r2 w2)
  have "committed w2 = committed (begun w)"
    using TransferTx_fn_committed [of ctx arg zeroResult "begun w"] committing(2) by simp
  with committing assms show ?thesis by (simp add: Commit_proj)
qed

lemma queriesOf_simps [simp]:
  "queriesOf [] = []"
  "queriesOf ((c, e) # log) = (if isQuery c then c # queriesOf log else queriesOf log)"
  "queriesOf (xs @ ys) = queriesOf xs @ queriesOf ys"
  by (simp_all add: queriesOf_def)

lemma queriesOf_unitOfWork:
  "list_all isQuery (map fst p) \<Longrightarrow> queriesOf p = map fst p"
  by (induction p) (auto simp: queriesOf_def)

lemma prefix_all_isQuery:
  "prefix cs (unitOfWork arg nb1 nb2) \<Longrightarrow> list_all isQuery cs"
  by (auto simp: prefix_def unitOfWork_def list_all_iff Cons_eq_append_conv append_eq_Cons_conv)

lemma TransferTx_queries:
  "\<exists>nb1 nb2. prefix (queriesOf (attempt w (snd (TransferTx ctx arg w)))) (unitOfWork arg nb1 nb2)"
proof (cases rule: TransferTx_cases [of w ctx arg])
  case (begin_failed e)
  then show ?thesis by simp
next
  case (rolled_back e r2 w2)
  from TransferTx_fn_calls [of ctx arg zeroResult "begun w"] rolled_back(2)
  obtain p nb1 nb2 where p: "calls w2 = calls (begun w) @ p"
    "prefix (map fst p) (unitOfWork arg nb1 nb2)" by auto
  have "queriesOf p = map fst p"
    using p(2) by (intro queriesOf_unitOfWork prefix_all_isQuery)
  with p rolled_back show ?thesis by (auto simp: Rollback_proj)
next
  case (committing r2 w2)
  from TransferTx_fn_calls [of ctx arg zeroResult "begun w"] committing(2)
  obtain p nb1 nb2 where p: "calls w2 = calls (begun w) @ p"
    "prefix (map fst p) (unitOfWork arg nb1 nb2)" by auto
  have "queriesOf p = map fst p"
    using p(2) by (intro queriesOf_unitOfWork prefix_all_isQuery)
  with p committing show ?thesis by (auto simp: Commit_proj)
qed

text \<open>The equations that evaluate a run on a concrete world.\<close>

lemmas run_defs = TransferTx_def execTx_def TransferTx_fn_def BeginTx_def Commit_def Rollback_def
  runQuery_def view_def store_def fault_def logCall_def Println_def findAccount_def setBalance_def
  zeroResult_def zeroAccount_def zeroEntry_def zeroTransfer_def Let_def
  exampleWorld_def failingWorld_def exampleTransfer_def reverseTransfer_def
  negativeTransfer_def selfTransfer_def overflowWorld_def overflowTransfer_def minTransfer_def
  MinInt64_def

section \<open>Lemmas about the log and the balances\<close>

lemma updatedID_not_query: "\<not> isQuery c \<Longrightarrow> updatedID c = []"
  by (cases c) auto

lemma updateOrder_queriesOf: "updateOrder log = concat (map updatedID (queriesOf log))"
  by (induction log) (auto simp: updateOrder_def queriesOf_def updatedID_not_query)

lemma updatedID_unitOfWork:
  "concat (map updatedID (unitOfWork arg nb1 nb2)) = [FromAccountID arg, ToAccountID arg]"
  by (simp add: unitOfWork_def)

lemma TransferTx_ok_run:
  "snd (fst (TransferTx ctx arg w)) = None \<Longrightarrow>
     TransferTx ctx arg w = ((fst (fst (TransferTx ctx arg w)), None), snd (TransferTx ctx arg w))"
  by (simp add: prod_eq_iff)


lemma sint_sub_in_range:
  fixes a b :: int64
  assumes "- (2 ^ 63) \<le> sint a - sint b" and "sint a - sint b < 2 ^ 63"
  shows "sint (a - b) = sint a - sint b"
  using assms by (simp add: sint_word_ariths word_size signed_take_bit_int_eq_self)

lemma sint_add_in_range:
  fixes a b :: int64
  assumes "- (2 ^ 63) \<le> sint a + sint b" and "sint a + sint b < 2 ^ 63"
  shows "sint (a + b) = sint a + sint b"
  using assms by (simp add: sint_word_ariths word_size signed_take_bit_int_eq_self)

lemma sint_MinInt64: "sint MinInt64 = - (2 ^ 63)"
  by (simp add: MinInt64_def)

lemma sint_neg_in_range:
  fixes a :: int64
  assumes "a \<noteq> MinInt64"
  shows "sint (- a) = - sint a"
proof -
  have "sint a \<noteq> sint MinInt64"
    using assms by (auto dest: signed_word_eqI)
  then have "sint a \<noteq> - (2 ^ 63)" by (simp add: sint_MinInt64)
  moreover have "- (2 ^ 63) \<le> sint a" "sint a < 2 ^ 63"
    using sint_ge [of a] sint_lt [of a] by simp_all
  ultimately have "- (2 ^ 63) \<le> - sint a" "- sint a < 2 ^ 63" by simp_all
  then show ?thesis
    by (simp add: sint_word_minus signed_take_bit_int_eq_self)
qed

lemma findAccount_map_setBalance2:
  "findAccount i (map (setBalance j b \<circ> setBalance k c) as)
     = map_option (setBalance j b \<circ> setBalance k c) (findAccount i as)"
  by (induction as) (auto simp: findAccount_def setBalance_def)

lemma setBalance_other: "ID a \<noteq> i \<Longrightarrow> setBalance i b a = a"
  by (simp add: setBalance_def)


section \<open>The claims\<close>

subsection \<open>C1\<close>

text \<open>
  Claim C1 as stated fails when \<open>fromAccountID > toAccountID\<close>: for the transfer from
  account 2 to account 1 the rule asks for account 1 (the destination) first, and the code
  updates account 2 (the source) first.
\<close>

theorem TransferTx_update_order_counterexample:
  "snd (fst (TransferTx (Context None) reverseTransfer exampleWorld)) = None
   \<and> updateOrder (attempt exampleWorld (snd (TransferTx (Context None) reverseTransfer exampleWorld)))
       = [2, 1]
   \<and> DeadlockAvoidanceOrdering reverseTransfer = [1, 2]
   \<and> updateOrder (attempt exampleWorld (snd (TransferTx (Context None) reverseTransfer exampleWorld)))
       \<noteq> DeadlockAvoidanceOrdering reverseTransfer"
  by (simp add: run_defs attempt_def updateOrder_def DeadlockAvoidanceOrdering_def word_sless_alt)

text \<open>
  Claim C1, as amended. The two balance updates of a transfer are issued in a fixed order
  that does not depend on the account ids: the source account's balance is updated before
  the destination's. Every run issues a prefix of that order, a run that returns no error
  issues both updates, and the order is the one the rule of section 4.2 asks for whenever
  \<open>fromAccountID \<le> toAccountID\<close>.
\<close>

theorem TransferTx_update_order:
  "prefix (updateOrder (attempt w (snd (TransferTx ctx arg w))))
      [FromAccountID arg, ToAccountID arg]
   \<and> (snd (fst (TransferTx ctx arg w)) = None \<longrightarrow>
        updateOrder (attempt w (snd (TransferTx ctx arg w))) = [FromAccountID arg, ToAccountID arg]
        \<and> (FromAccountID arg \<le>s ToAccountID arg \<longrightarrow>
             updateOrder (attempt w (snd (TransferTx ctx arg w))) = DeadlockAvoidanceOrdering arg))"
proof -
  let ?log = "attempt w (snd (TransferTx ctx arg w))"
  from TransferTx_queries [of w ctx arg] obtain nb1 nb2 zs
    where "unitOfWork arg nb1 nb2 = queriesOf ?log @ zs"
    by (auto simp: prefix_def)
  then have "concat (map updatedID (unitOfWork arg nb1 nb2))
      = updateOrder ?log @ concat (map updatedID zs)"
    by (simp add: updateOrder_queriesOf)
  then have p: "prefix (updateOrder ?log) [FromAccountID arg, ToAccountID arg]"
    by (simp add: updatedID_unitOfWork prefix_def)
  have q: "updateOrder ?log = [FromAccountID arg, ToAccountID arg]"
    if "snd (fst (TransferTx ctx arg w)) = None"
  proof -
    from TransferTx_ok [OF TransferTx_ok_run [OF that]] obtain n1 n2 where
      "calls (snd (TransferTx ctx arg w)) = calls w @ (CallBeginTx, None) #
         map (\<lambda>c. (c, None)) (unitOfWork arg n1 n2) @ [(CallCommit, None)]"
      by auto
    then show ?thesis by (simp add: updateOrder_def unitOfWork_def)
  qed
  have r: "DeadlockAvoidanceOrdering arg = [FromAccountID arg, ToAccountID arg]"
    if "FromAccountID arg \<le>s ToAccountID arg"
    using that by (auto simp: DeadlockAvoidanceOrdering_def word_sless_eq)
  from p q r show ?thesis by simp
qed

theorem TransferTx_update_order_witness:
  "snd (fst (TransferTx (Context None) exampleTransfer exampleWorld)) = None
   \<and> FromAccountID exampleTransfer \<le>s ToAccountID exampleTransfer
   \<and> updateOrder (attempt exampleWorld (snd (TransferTx (Context None) exampleTransfer exampleWorld)))
       = [1, 2]
   \<and> DeadlockAvoidanceOrdering exampleTransfer = [1, 2]"
proof -
  have "snd (fst (TransferTx (Context None) exampleTransfer exampleWorld)) = None"
    by (simp add: run_defs)
  moreover have "FromAccountID exampleTransfer \<le>s ToAccountID exampleTransfer"
    by (simp add: exampleTransfer_def word_sle_eq)
  ultimately show ?thesis
    using TransferTx_update_order [of exampleWorld "Context None" exampleTransfer]
    by (simp add: exampleTransfer_def DeadlockAvoidanceOrdering_def word_sless_alt)
qed

subsection \<open>C2\<close>

text \<open>
  Claim C2. When one of the five writes of a transfer (the transfer insert, the two entry
  inserts, the two balance updates) fails, \<open>TransferTx\<close> returns an error, the committed
  tables (accounts, entries, transfers) are those of before the attempt, and no transaction
  is left open: none of the writes is observable.
\<close>

theorem TransferTx_atomic_on_write_failure:
  assumes run: "TransferTx ctx arg w = ((result, err), w')"
    and fw: "failedWrite (attempt w w')"
  shows "err \<noteq> None \<and> committed w' = committed w \<and> working w' = None"
proof (cases rule: TransferTx_cases [of w ctx arg])
  case (begin_failed e)
  with run have "attempt w w' = [(CallBeginTx, Some e)]" by auto
  with fw show ?thesis by (simp add: failedWrite_def)
next
  case (rolled_back e r2 w2)
  with run have e: "err \<noteq> None" and w': "w' = snd (Rollback w2)"
    by (auto split: option.splits)
  from e run have "committed w' = committed w"
    using TransferTx_err_committed [of ctx arg w] by simp
  with e w' show ?thesis by (simp add: Rollback_proj)
next
  case (committing r2 w2)
  from TransferTx_fn_ok [OF committing(2)] obtain n1 n2 where
    "calls w2 = calls (begun w) @ map (\<lambda>c. (c, None)) (unitOfWork arg n1 n2)"
    by auto
  with run committing have "attempt w w' = (CallBeginTx, None) #
      map (\<lambda>c. (c, None)) (unitOfWork arg n1 n2) @ [(CallCommit, fst (Commit w2))]"
    by (auto simp: Commit_proj)
  with fw show ?thesis by (simp add: failedWrite_def unitOfWork_def)
qed

theorem TransferTx_atomic_on_write_failure_witness:
  "failedWrite (attempt failingWorld (snd (TransferTx (Context None) exampleTransfer failingWorld)))
   \<and> snd (fst (TransferTx (Context None) exampleTransfer failingWorld)) = Some (Err ''write failed'')
   \<and> committed (snd (TransferTx (Context None) exampleTransfer failingWorld)) = committed failingWorld
   \<and> working (snd (TransferTx (Context None) exampleTransfer failingWorld)) = None"
proof -
  let ?X = "TransferTx (Context None) exampleTransfer failingWorld"
  have run: "?X = ((fst (fst ?X), snd (fst ?X)), snd ?X)" by simp
  have fw: "failedWrite (attempt failingWorld (snd ?X))"
    by (simp add: run_defs attempt_def failedWrite_def)
  have e: "snd (fst ?X) = Some (Err ''write failed'')"
    by (simp add: run_defs)
  from TransferTx_atomic_on_write_failure [OF run fw] fw e show ?thesis by simp
qed

subsection \<open>C3\<close>




subsection \<open>C4\<close>

text \<open>
  Claim C4 as stated fails at the ends of the range of \<open>int64\<close>: with balances
  \<open>-9223372036854775803\<close> and \<open>9223372036854775804\<close>, the transfer of 10 from account 1 to
  account 2 (positive amount, distinct existing accounts) returns no error, and the returned
  \<open>FromAccount\<close> has balance \<open>9223372036854775803\<close>, not the balance minus 10, and the
  returned \<open>ToAccount\<close> balance \<open>-9223372036854775802\<close>, not the balance plus 10.
\<close>

theorem TransferTx_balances_counterexample:
  "0 <s Amount overflowTransfer
   \<and> FromAccountID overflowTransfer \<noteq> ToAccountID overflowTransfer
   \<and> map (sint \<circ> Balance) (accounts (committed overflowWorld))
       = [- 9223372036854775803, 9223372036854775804]
   \<and> sint (Amount overflowTransfer) = 10
   \<and> snd (fst (TransferTx (Context None) overflowTransfer overflowWorld)) = None
   \<and> sint (Balance (FromAccount (fst (fst (TransferTx (Context None) overflowTransfer overflowWorld)))))
       = 9223372036854775803
   \<and> sint (Balance (FromAccount (fst (fst (TransferTx (Context None) overflowTransfer overflowWorld)))))
       \<noteq> - 9223372036854775803 - 10
   \<and> sint (Balance (ToAccount (fst (fst (TransferTx (Context None) overflowTransfer overflowWorld)))))
       = - 9223372036854775802
   \<and> sint (Balance (ToAccount (fst (fst (TransferTx (Context None) overflowTransfer overflowWorld)))))
       \<noteq> 9223372036854775804 + 10"
  by (simp add: run_defs word_sless_alt)

text \<open>
  Claim C4, as amended. After a successful transfer between two distinct existing accounts,
  the returned \<open>FromAccount\<close> has the source's balance of before the transfer minus the
  amount and the returned \<open>ToAccount\<close> the destination's balance plus the amount, both
  computed in the wrapping arithmetic of \<open>int64\<close>; these are also the rows stored for the
  two accounts. Read as integers, the first equation holds whenever the balance minus the
  amount is in the range of \<open>int64\<close> and the second whenever the balance plus the amount
  is. The amount need not be positive for this.
\<close>

theorem TransferTx_balances:
  assumes run: "TransferTx ctx arg w = ((result, None), w')"
    and ne: "FromAccountID arg \<noteq> ToAccountID arg"
    and a1: "findAccount (FromAccountID arg) (accounts (committed w)) = Some a1"
    and a2: "findAccount (ToAccountID arg) (accounts (committed w)) = Some a2"
  shows "Balance (FromAccount result) = Balance a1 - Amount arg
    \<and> Balance (ToAccount result) = Balance a2 + Amount arg
    \<and> findAccount (FromAccountID arg) (accounts (committed w')) = Some (FromAccount result)
    \<and> findAccount (ToAccountID arg) (accounts (committed w')) = Some (ToAccount result)
    \<and> (- (2 ^ 63) \<le> sint (Balance a1) - sint (Amount arg)
         \<and> sint (Balance a1) - sint (Amount arg) < 2 ^ 63 \<longrightarrow>
       sint (Balance (FromAccount result)) = sint (Balance a1) - sint (Amount arg))
    \<and> (- (2 ^ 63) \<le> sint (Balance a2) + sint (Amount arg)
         \<and> sint (Balance a2) + sint (Amount arg) < 2 ^ 63 \<longrightarrow>
       sint (Balance (ToAccount result)) = sint (Balance a2) + sint (Amount arg))"
proof -
  have i1: "ID a1 = FromAccountID arg" and i2: "ID a2 = ToAccountID arg"
    using a1 a2 by (auto dest: findAccount_ID)
  from TransferTx_ok [OF run] a1 obtain b2 where
    b2: "findAccount (ToAccountID arg)
          (map (setBalance (FromAccountID arg) (Balance a1 - Amount arg))
             (accounts (committed w))) = Some b2" and
    r: "result = transferResult arg a1 b2" and
    c: "committed w' = transferred arg a1 b2 (committed w)"
    by auto
  from b2 a2 i2 ne have "b2 = a2"
    by (simp add: findAccount_map_setBalance setBalance_other)
  with r have r': "result = transferResult arg a1 a2" by simp
  have f: "Balance (FromAccount result) = Balance a1 - Amount arg"
    and t: "Balance (ToAccount result) = Balance a2 + Amount arg"
    using r' by (simp_all add: transferResult_def)
  have sf: "findAccount (FromAccountID arg) (accounts (committed w')) = Some (FromAccount result)"
    using c r' \<open>b2 = a2\<close> a1 i1 ne
    by (simp add: transferred_def transferResult_def findAccount_map_setBalance2 setBalance_def)
  have st: "findAccount (ToAccountID arg) (accounts (committed w')) = Some (ToAccount result)"
    using c r' \<open>b2 = a2\<close> a2 i2 ne
    by (simp add: transferred_def transferResult_def findAccount_map_setBalance2 setBalance_def)
  from f t sf st show ?thesis
    by (simp add: sint_sub_in_range sint_add_in_range)
qed

theorem TransferTx_balances_witness:
  "snd (fst (TransferTx (Context None) exampleTransfer exampleWorld)) = None
   \<and> FromAccountID exampleTransfer \<noteq> ToAccountID exampleTransfer
   \<and> map Balance (accounts (committed exampleWorld)) = [100, 50]
   \<and> - (2 ^ 63) \<le> sint (100 :: int64) - sint (Amount exampleTransfer)
   \<and> sint (100 :: int64) - sint (Amount exampleTransfer) < 2 ^ 63
   \<and> - (2 ^ 63) \<le> sint (50 :: int64) + sint (Amount exampleTransfer)
   \<and> sint (50 :: int64) + sint (Amount exampleTransfer) < 2 ^ 63
   \<and> Balance (FromAccount (fst (fst (TransferTx (Context None) exampleTransfer exampleWorld)))) = 100 - 30
   \<and> Balance (ToAccount (fst (fst (TransferTx (Context None) exampleTransfer exampleWorld)))) = 50 + 30
   \<and> sint (Balance (FromAccount (fst (fst (TransferTx (Context None) exampleTransfer exampleWorld))))) = 70
   \<and> sint (Balance (ToAccount (fst (fst (TransferTx (Context None) exampleTransfer exampleWorld))))) = 80"
proof -
  let ?X = "TransferTx (Context None) exampleTransfer exampleWorld"
  have ok: "snd (fst ?X) = None" by (simp add: run_defs)
  have ne: "FromAccountID exampleTransfer \<noteq> ToAccountID exampleTransfer"
    by (simp add: exampleTransfer_def)
  have a1: "findAccount (FromAccountID exampleTransfer) (accounts (committed exampleWorld))
      = Some \<lparr>ID = 1, Owner = ''A'', Balance = 100, Currency = ''USD''\<rparr>"
    and a2: "findAccount (ToAccountID exampleTransfer) (accounts (committed exampleWorld))
      = Some \<lparr>ID = 2, Owner = ''B'', Balance = 50, Currency = ''USD''\<rparr>"
    by (simp_all add: findAccount_def exampleTransfer_def exampleWorld_def)
  from TransferTx_balances [OF TransferTx_ok_run [OF ok] ne a1 a2] ok ne
  show ?thesis by (simp add: exampleTransfer_def exampleWorld_def)
qed

subsection \<open>C5\<close>

text \<open>
  Claim C5 as stated fails for the amount \<open>MinInt64\<close>, which \<open>TransferTx\<close> accepts: the
  transfer returns no error, both entries carry the amount \<open>-9223372036854775808\<close>, so
  \<open>FromEntry\<close> does not carry the negated amount and the two amounts do not sum to zero.
\<close>

theorem TransferTx_entries_counterexample:
  "sint (Amount minTransfer) = - 9223372036854775808
   \<and> snd (fst (TransferTx (Context None) minTransfer exampleWorld)) = None
   \<and> sint (eAmount (FromEntry (fst (fst (TransferTx (Context None) minTransfer exampleWorld)))))
       = - 9223372036854775808
   \<and> sint (eAmount (FromEntry (fst (fst (TransferTx (Context None) minTransfer exampleWorld)))))
       \<noteq> - sint (Amount minTransfer)
   \<and> sint (eAmount (ToEntry (fst (fst (TransferTx (Context None) minTransfer exampleWorld)))))
       = - 9223372036854775808
   \<and> sint (eAmount (FromEntry (fst (fst (TransferTx (Context None) minTransfer exampleWorld)))))
       + sint (eAmount (ToEntry (fst (fst (TransferTx (Context None) minTransfer exampleWorld)))))
       \<noteq> 0"
  by (simp add: run_defs)

text \<open>
  Claim C5, as amended. A successful transfer of amount \<open>a\<close> creates exactly two entries:
  \<open>FromEntry\<close> on the source account with the amount \<open>-a\<close> computed in \<open>int64\<close> and
  \<open>ToEntry\<close> on the destination account with amount \<open>a\<close>; in \<open>int64\<close> arithmetic
  their sum is zero. For every amount other than \<open>MinInt64\<close>, so for every positive
  amount, this holds of the integers too: \<open>FromEntry\<close> carries \<open>-a\<close> and the two
  amounts sum to zero. For the amount \<open>MinInt64\<close> both entries carry \<open>MinInt64\<close>.
\<close>

theorem TransferTx_entries:
  assumes "TransferTx ctx arg w = ((result, None), w')"
  shows "FromEntry result = \<lparr>eAccountID = FromAccountID arg, eAmount = - Amount arg\<rparr>
    \<and> ToEntry result = \<lparr>eAccountID = ToAccountID arg, eAmount = Amount arg\<rparr>
    \<and> eAmount (FromEntry result) + eAmount (ToEntry result) = 0
    \<and> entries (committed w') = entries (committed w) @ [FromEntry result, ToEntry result]
    \<and> (Amount arg \<noteq> MinInt64 \<longrightarrow>
         sint (eAmount (FromEntry result)) = - sint (Amount arg)
         \<and> sint (eAmount (ToEntry result)) = sint (Amount arg)
         \<and> sint (eAmount (FromEntry result)) + sint (eAmount (ToEntry result)) = 0)
    \<and> (Amount arg = MinInt64 \<longrightarrow>
         sint (eAmount (FromEntry result)) = - (2 ^ 63)
         \<and> sint (eAmount (ToEntry result)) = - (2 ^ 63))"
proof -
  from TransferTx_ok [OF assms] obtain a1 a2 where
    r: "result = transferResult arg a1 a2" and
    c: "committed w' = transferred arg a1 a2 (committed w)"
    by auto
  have f: "eAmount (FromEntry result) = - Amount arg"
    and t: "eAmount (ToEntry result) = Amount arg"
    using r by (simp_all add: transferResult_def)
  have n: "sint (- Amount arg) = - sint (Amount arg)" if "Amount arg \<noteq> MinInt64"
    using that by (rule sint_neg_in_range)
  have m: "sint (- Amount arg) = - (2 ^ 63) \<and> sint (Amount arg) = - (2 ^ 63)"
    if "Amount arg = MinInt64"
    using that by (simp add: MinInt64_def)
  have w: "FromEntry result = \<lparr>eAccountID = FromAccountID arg, eAmount = - Amount arg\<rparr>
    \<and> ToEntry result = \<lparr>eAccountID = ToAccountID arg, eAmount = Amount arg\<rparr>
    \<and> eAmount (FromEntry result) + eAmount (ToEntry result) = 0
    \<and> entries (committed w') = entries (committed w) @ [FromEntry result, ToEntry result]"
    using r c by (simp add: transferResult_def transferred_def)
  from w n m show ?thesis
    unfolding f t by auto
qed

theorem TransferTx_entries_witness:
  "snd (fst (TransferTx (Context None) exampleTransfer exampleWorld)) = None
   \<and> Amount exampleTransfer \<noteq> MinInt64
   \<and> FromEntry (fst (fst (TransferTx (Context None) exampleTransfer exampleWorld)))
       = \<lparr>eAccountID = 1, eAmount = - 30\<rparr>
   \<and> ToEntry (fst (fst (TransferTx (Context None) exampleTransfer exampleWorld)))
       = \<lparr>eAccountID = 2, eAmount = 30\<rparr>
   \<and> entries (committed (snd (TransferTx (Context None) exampleTransfer exampleWorld)))
       = [\<lparr>eAccountID = 1, eAmount = - 30\<rparr>, \<lparr>eAccountID = 2, eAmount = 30\<rparr>]
   \<and> sint (eAmount (FromEntry (fst (fst (TransferTx (Context None) exampleTransfer exampleWorld)))))
       = - 30
   \<and> sint (eAmount (FromEntry (fst (fst (TransferTx (Context None) exampleTransfer exampleWorld)))))
       + sint (eAmount (ToEntry (fst (fst (TransferTx (Context None) exampleTransfer exampleWorld)))))
       = 0
   \<and> snd (fst (TransferTx (Context None) minTransfer exampleWorld)) = None
   \<and> Amount minTransfer = MinInt64
   \<and> sint (eAmount (FromEntry (fst (fst (TransferTx (Context None) minTransfer exampleWorld)))))
       = - (2 ^ 63)
   \<and> sint (eAmount (ToEntry (fst (fst (TransferTx (Context None) minTransfer exampleWorld)))))
       = - (2 ^ 63)"
proof -
  have ok: "snd (fst (TransferTx (Context None) exampleTransfer exampleWorld)) = None"
    by (simp add: run_defs)
  have ne: "Amount exampleTransfer \<noteq> MinInt64"
    by (simp add: exampleTransfer_def MinInt64_def)
  have ok': "snd (fst (TransferTx (Context None) minTransfer exampleWorld)) = None"
    by (simp add: run_defs)
  have eq: "Amount minTransfer = MinInt64"
    by (simp add: minTransfer_def)
  from TransferTx_entries [OF TransferTx_ok_run [OF ok]]
    TransferTx_entries [OF TransferTx_ok_run [OF ok']] ok ne ok' eq
  show ?thesis by (simp add: exampleTransfer_def exampleWorld_def minTransfer_def MinInt64_def)
qed

subsection \<open>C6\<close>

text \<open>
  Claim C6. When the transaction has begun and the callback returns an error: if the
  rollback succeeds \<open>execTx\<close> returns exactly the callback's error; if the rollback fails
  too, \<open>execTx\<close> returns one error whose message contains the message of the callback's
  error and the message of the rollback's error.
\<close>

theorem execTx_rollback_errors:
  assumes "BeginTx ctx w = (None, w1)" and "fn (New Tx) (c, w1) = (Some err, c2, w2)"
  shows "fst (execTx ctx fn (c, w)) =
           (case fst (Rollback w2) of
              None \<Rightarrow> Some err
            | Some rbErr \<Rightarrow> Some (Errorf_tx_rb err rbErr))
    \<and> sublist (Error err) (Error (Errorf_tx_rb err rbErr))
    \<and> sublist (Error rbErr) (Error (Errorf_tx_rb err rbErr))"
proof -
  have "sublist (Error err) (''tx err: '' @ Error err @ ('', rb err: '' @ Error rbErr))"
    by (rule sublist_appendI)
  moreover have "sublist (Error rbErr) ((''tx err: '' @ Error err @ '', rb err: '') @ Error rbErr @ [])"
    by (rule sublist_appendI)
  ultimately show ?thesis
    using execTx_rollback [where fn = fn, OF assms] by (simp add: Errorf_tx_rb_def)
qed

theorem execTx_rollback_errors_witness:
  "fst (execTx (Context None) (countingFn (Some (Err ''boom''))) (0, exampleWorld)) = Some (Err ''boom'')
   \<and> fst (execTx (Context None) (countingFn (Some (Err ''boom'')))
        (0, exampleWorld\<lparr>faults := (\<lambda>n. if n = 1 then Some (Err ''bad connection'') else None)\<rparr>))
      = Some (Err ''tx err: boom, rb err: bad connection'')
   \<and> sublist ''boom'' ''tx err: boom, rb err: bad connection''
   \<and> sublist ''bad connection'' ''tx err: boom, rb err: bad connection''"
proof -
  let ?w = "exampleWorld\<lparr>faults := (\<lambda>n. if n = 1 then Some (Err ''bad connection'') else None)\<rparr>"
  have b1: "BeginTx (Context None) exampleWorld = (None, begun exampleWorld)"
    by (simp add: BeginTx_None begun_def fault_def exampleWorld_def)
  have f1: "countingFn (Some (Err ''boom'')) (New Tx) (0, begun exampleWorld)
      = (Some (Err ''boom''), 1, begun exampleWorld)"
    by (simp add: countingFn_def)
  have b2: "BeginTx (Context None) ?w = (None, begun ?w)"
    by (simp add: BeginTx_None begun_def fault_def exampleWorld_def)
  have f2: "countingFn (Some (Err ''boom'')) (New Tx) (0, begun ?w)
      = (Some (Err ''boom''), 1, begun ?w)"
    by (simp add: countingFn_def)
  have r1: "fst (Rollback (begun exampleWorld)) = None"
    by (simp add: Rollback_def begun_def fault_def logCall_def exampleWorld_def)
  have r2: "fst (Rollback (begun ?w)) = Some (Err ''bad connection'')"
    by (simp add: Rollback_def begun_def fault_def logCall_def exampleWorld_def)
  from execTx_rollback_errors [where fn = "countingFn (Some (Err ''boom''))", OF b1 f1,
      of "Err ''bad connection''"]
    execTx_rollback_errors [where fn = "countingFn (Some (Err ''boom''))", OF b2 f2,
      of "Err ''bad connection''"] r1 r2
  show ?thesis by (simp add: Errorf_tx_rb_def)
qed

subsection \<open>C7\<close>

text \<open>
  Claim C7. Once the transaction has begun, \<open>execTx\<close> runs the callback exactly once: the
  captured variables and the world it ends with are those of one run of the callback from
  the world after \<open>BeginTx\<close>, followed by one \<open>Commit\<close> or one \<open>Rollback\<close>. When the
  callback returns no error the transaction is committed and \<open>execTx\<close> returns what
  \<open>Commit\<close> returns.
\<close>

theorem execTx_once_then_commit:
  assumes "BeginTx ctx w = (None, w1)" and "fn (New Tx) (c, w1) = (err, c2, w2)"
  shows "snd (execTx ctx fn (c, w)) = (c2, snd (if err = None then Commit w2 else Rollback w2))
    \<and> (err = None \<longrightarrow> fst (execTx ctx fn (c, w)) = fst (Commit w2))"
proof (cases err)
  case None
  with assms execTx_commit [of ctx w w1 fn c c2 w2] show ?thesis by simp
next
  case (Some e)
  with assms execTx_rollback [of ctx w w1 fn c e c2 w2] show ?thesis by simp
qed

theorem execTx_once_then_commit_witness:
  "BeginTx (Context None) exampleWorld = (None, begun exampleWorld)
   \<and> countingFn None (New Tx) (0, begun exampleWorld) = (None, 1, begun exampleWorld)
   \<and> fst (snd (execTx (Context None) (countingFn None) (0, exampleWorld))) = 1
   \<and> map fst (calls (snd (snd (execTx (Context None) (countingFn None) (0, exampleWorld)))))
       = [CallBeginTx, CallCommit]
   \<and> fst (execTx (Context None) (countingFn None) (0, exampleWorld)) = fst (Commit (begun exampleWorld))"
proof -
  have b: "BeginTx (Context None) exampleWorld = (None, begun exampleWorld)"
    by (simp add: BeginTx_None begun_def fault_def exampleWorld_def)
  have f: "countingFn None (New Tx) (0, begun exampleWorld) = (None, 1, begun exampleWorld)"
    by (simp add: countingFn_def)
  from execTx_once_then_commit [where fn = "countingFn None", OF b f] b f show ?thesis
    by (simp add: Commit_proj exampleWorld_def)
qed

subsection \<open>C8\<close>

text \<open>
  Claim C8. The statements of a transfer are issued through the transaction's handle in the
  order of \<open>unitOfWork\<close>: the transfer insert, the entry insert for the source, the entry
  insert for the destination, then for the source and then for the destination a read of
  the account followed by the write of its new balance. Every run issues a prefix of this
  sequence; a run that returns no error issues all of it between \<open>BeginTx\<close> and
  \<open>Commit\<close>, each written balance computed from the row its read found.
\<close>

theorem TransferTx_statement_order:
  "(\<exists>nb1 nb2. prefix (queriesOf (attempt w (snd (TransferTx ctx arg w))))
       (unitOfWork arg nb1 nb2))
   \<and> (snd (fst (TransferTx ctx arg w)) = None \<longrightarrow>
        (\<exists>a1 a2. findAccount (FromAccountID arg) (accounts (committed w)) = Some a1
           \<and> findAccount (ToAccountID arg)
                (map (setBalance (FromAccountID arg) (Balance a1 - Amount arg))
                   (accounts (committed w))) = Some a2
           \<and> map fst (attempt w (snd (TransferTx ctx arg w)))
                = CallBeginTx #
                  unitOfWork arg (Balance a1 - Amount arg) (Balance a2 + Amount arg) @
                  [CallCommit]))"
proof -
  have "\<exists>a1 a2. findAccount (FromAccountID arg) (accounts (committed w)) = Some a1
           \<and> findAccount (ToAccountID arg)
                (map (setBalance (FromAccountID arg) (Balance a1 - Amount arg))
                   (accounts (committed w))) = Some a2
           \<and> map fst (attempt w (snd (TransferTx ctx arg w)))
                = CallBeginTx #
                  unitOfWork arg (Balance a1 - Amount arg) (Balance a2 + Amount arg) @
                  [CallCommit]"
    if "snd (fst (TransferTx ctx arg w)) = None"
  proof -
    from TransferTx_ok [OF TransferTx_ok_run [OF that]] obtain a1 a2 where
      "findAccount (FromAccountID arg) (accounts (committed w)) = Some a1"
      "findAccount (ToAccountID arg)
          (map (setBalance (FromAccountID arg) (Balance a1 - Amount arg))
             (accounts (committed w))) = Some a2"
      "calls (snd (TransferTx ctx arg w)) = calls w @ (CallBeginTx, None) #
         map (\<lambda>c. (c, None)) (unitOfWork arg (Balance a1 - Amount arg) (Balance a2 + Amount arg))
         @ [(CallCommit, None)]"
      by auto
    then show ?thesis by (auto simp: comp_def)
  qed
  with TransferTx_queries [of w ctx arg] show ?thesis by simp
qed

theorem TransferTx_statement_order_witness:
  "snd (fst (TransferTx (Context None) exampleTransfer exampleWorld)) = None
   \<and> map fst (attempt exampleWorld (snd (TransferTx (Context None) exampleTransfer exampleWorld)))
       = [CallBeginTx,
          CallQuery Tx (StCreateTransfer \<lparr>ctFromAccountID = 1, ctToAccountID = 2, ctAmount = 30\<rparr>),
          CallQuery Tx (StCreateEntry \<lparr>ceAccountID = 1, ceAmount = - 30\<rparr>),
          CallQuery Tx (StCreateEntry \<lparr>ceAccountID = 2, ceAmount = 30\<rparr>),
          CallQuery Tx (StGetAccount 1),
          CallQuery Tx (StUpdateAccount \<lparr>uaID = 1, uaBalance = 70\<rparr>),
          CallQuery Tx (StGetAccount 2),
          CallQuery Tx (StUpdateAccount \<lparr>uaID = 2, uaBalance = 80\<rparr>),
          CallCommit]"
proof -
  have ok: "snd (fst (TransferTx (Context None) exampleTransfer exampleWorld)) = None"
    by (simp add: run_defs)
  from TransferTx_statement_order [of exampleWorld "Context None" exampleTransfer] ok
  show ?thesis
    by (auto simp: exampleTransfer_def exampleWorld_def unitOfWork_def findAccount_def
        setBalance_def)
qed

subsection \<open>C9\<close>



subsection \<open>C10\<close>

text \<open>
  Claim C10. When beginning the transaction fails, \<open>execTx\<close> returns exactly the error of
  \<open>BeginTx\<close>; the callback is not run (the captured variables and the world are those
  left by \<open>BeginTx\<close>, whatever the callback is), and the only call made to the store is
  the failed \<open>BeginTx\<close>: no commit and no rollback.
\<close>

theorem execTx_begin_error:
  assumes "BeginTx ctx w = (Some err, w1)"
  shows "execTx ctx fn (c, w) = (Some err, c, w1) \<and> attempt w w1 = [(CallBeginTx, Some err)]"
  using assms by (auto simp: execTx_begin_fail BeginTx_Some)

theorem execTx_begin_error_witness:
  "BeginTx (Context None) (exampleWorld\<lparr>faults := (\<lambda>n. Some (Err ''no connection''))\<rparr>)
     = (Some (Err ''no connection''),
        exampleWorld\<lparr>faults := (\<lambda>n. Some (Err ''no connection'')),
                      calls := [(CallBeginTx, Some (Err ''no connection''))]\<rparr>)
   \<and> execTx (Context None) (countingFn None)
        (0, exampleWorld\<lparr>faults := (\<lambda>n. Some (Err ''no connection''))\<rparr>)
     = (Some (Err ''no connection''), 0,
        exampleWorld\<lparr>faults := (\<lambda>n. Some (Err ''no connection'')),
                      calls := [(CallBeginTx, Some (Err ''no connection''))]\<rparr>)"
proof -
  have b: "BeginTx (Context None) (exampleWorld\<lparr>faults := (\<lambda>n. Some (Err ''no connection''))\<rparr>)
     = (Some (Err ''no connection''),
        exampleWorld\<lparr>faults := (\<lambda>n. Some (Err ''no connection'')),
                      calls := [(CallBeginTx, Some (Err ''no connection''))]\<rparr>)"
    by (simp add: BeginTx_def fault_def logCall_def exampleWorld_def)
  from execTx_begin_error [OF b, of "countingFn None" 0] b show ?thesis by simp
qed

end
